theory Spec2Isabelle
  imports Main
begin

section \<open>The language-server client lifecycle of the OxideKit extension\<close>

text \<open>
  This theory embeds the part of \<^verbatim>\<open>src/src/extension.ts\<close> that locates the
  \<^verbatim>\<open>oxide-lsp\<close> binary and starts, stops and restarts the language client:
  \<^verbatim>\<open>activate\<close>, \<^verbatim>\<open>deactivate\<close>, \<^verbatim>\<open>startLspClient\<close>, \<^verbatim>\<open>findOxideLsp\<close>,
  \<^verbatim>\<open>registerCommands\<close>, \<^verbatim>\<open>registerTreeViews\<close> and \<^verbatim>\<open>restartLsp\<close>.

  Everything the code reads from outside (the configuration, the workspace folders, the
  file system, the process table, the platform) is a field of the record \<open>env\<close>.
  Everything the code does to the outside (a call of the editor API, of the file system,
  of a child process, of the language-client library) is appended to the event log of the
  record \<open>world\<close>, which also carries the two module-level variables \<^verbatim>\<open>client\<close> and
  \<^verbatim>\<open>devServerTerminal\<close>. An \<^verbatim>\<open>async\<close> function is a function from the world to a
  result and the world it leaves; a rejected promise or a thrown exception is the result
  \<open>Inl\<close>, and a \<^verbatim>\<open>try\<close>/\<^verbatim>\<open>catch\<close> is the case distinction on it.
\<close>

subsection \<open>Strings\<close>

text \<open>
  A string is a list of code units; the model has the code units below 256. The white
  space that \<^verbatim>\<open>String.prototype.trim\<close> removes is, in that range, tab, line feed,
  vertical tab, form feed, carriage return, space and no-break space.
\<close>

definition js_whitespace :: "char \<Rightarrow> bool" where
  "js_whitespace c =
     (c = CHR 0x09 \<or> c = CHR 0x0A \<or> c = CHR 0x0B \<or> c = CHR 0x0C \<or> c = CHR 0x0D
      \<or> c = CHR 0x20 \<or> c = CHR 0xA0)"

definition js_trim :: "string \<Rightarrow> string" where
  "js_trim s = rev (dropWhile js_whitespace (rev (dropWhile js_whitespace s)))"

text \<open>\<^verbatim>\<open>s.split(c)\<close> for a separator of one character: never the empty array.\<close>

fun js_split :: "char \<Rightarrow> string \<Rightarrow> string list" where
  "js_split c [] = [[]]"
| "js_split c (x # xs) =
     (if x = c then [] # js_split c xs
      else (case js_split c xs of [] \<Rightarrow> [[x]] | y # ys \<Rightarrow> (x # y) # ys))"

text \<open>\<^verbatim>\<open>a[0]\<close>: the first element, or \<^verbatim>\<open>undefined\<close> on the empty array.\<close>

definition js_index0 :: "'a list \<Rightarrow> 'a option" where
  "js_index0 xs = (case xs of [] \<Rightarrow> None | x # _ \<Rightarrow> Some x)"

text \<open>
  \<^verbatim>\<open>!serverPath\<close> on a value of type \<^verbatim>\<open>string | undefined\<close>: true for
  \<^verbatim>\<open>undefined\<close> and for the empty string.
\<close>

definition falsy :: "string option \<Rightarrow> bool" where
  "falsy v = (case v of None \<Rightarrow> True | Some s \<Rightarrow> s = [])"

subsection \<open>The environment\<close>

datatype js_error = JsError string

record env =
  config_lsp_path :: "string option"
  workspaceFolders :: "string list option"
  extensionPath :: string
  platform :: string
  process_env :: "string \<rightharpoonup> string"
  path_join :: "string list \<Rightarrow> string"
  fs_stat :: "string \<Rightarrow> js_error + unit"
  execSync :: "string \<Rightarrow> js_error + string"

text \<open>
  \<open>config_lsp_path\<close> is \<^verbatim>\<open>config.get<string>('lsp.path')\<close>; \<open>workspaceFolders\<close>
  holds \<^verbatim>\<open>folder.uri.fsPath\<close> of each workspace folder, or is \<^verbatim>\<open>undefined\<close>;
  \<open>fs_stat p\<close> is \<open>Inr ()\<close> when \<^verbatim>\<open>vscode.workspace.fs.stat\<close> resolves on \<open>p\<close> and
  \<open>Inl e\<close> when it rejects; \<open>execSync c\<close> is \<open>Inr out\<close> when the command exits with
  status 0 and standard output \<open>out\<close>, and \<open>Inl e\<close> when \<^verbatim>\<open>execSync\<close> throws (a
  non-zero exit status among others). \<open>path_join\<close> is Node's \<^verbatim>\<open>path.join\<close>, a library
  function and so a parameter here.
\<close>

subsection \<open>The world: module-level variables and the event log\<close>

datatype client_state = Initial | Starting | StartFailed | Running | Stopping | Stopped

datatype transport_kind = stdio | ipc | pipe | socket

record executable =
  command :: string
  transport :: transport_kind
  options_env :: "(string \<rightharpoonup> string) option"

record server_options =
  run :: executable
  debug :: executable

datatype document_filter =
    LanguageFilter string string
  | PatternFilter string string

record client_options =
  documentSelector :: "document_filter list"
  synchronize_fileEvents :: string
  outputChannel :: string

record language_client =
  client_id :: string
  client_name :: string
  serverOptions :: server_options
  clientOptions :: client_options
  state :: client_state

datatype event =
    ConsoleLog string
  | FsStat string
  | ExecSync string
  | ShowWarningMessage string
  | ShowInformationMessage string
  | CreateFileSystemWatcher string
  | CreateOutputChannel string
  | NewLanguageClient string string
  | ClientStart
  | ClientStop
  | TerminalDispose string
  | RegisterCommand string
  | RegisterTreeDataProvider string

datatype disposable = ClientStartResult | CommandRegistration string

record world =
  client :: "language_client option"
  devServerTerminal :: "string option"
  subscriptions :: "disposable list"
  events :: "event list"

definition emit :: "event \<Rightarrow> world \<Rightarrow> world" where
  "emit e w = w\<lparr>events := events w @ [e]\<rparr>"

text \<open>A world with further events logged and nothing else changed.\<close>

definition append_events :: "event list \<Rightarrow> world \<Rightarrow> world" where
  "append_events es w = w\<lparr>events := events w @ es\<rparr>"

text \<open>
  The language-client library (\<^verbatim>\<open>vscode-languageclient\<close>) is not part of the
  repository. What its \<^verbatim>\<open>start\<close> and \<^verbatim>\<open>stop\<close> do to a client object is a
  parameter: each takes the client and gives the outcome of the promise it returns and the
  state the client is left in.
\<close>

record lc_lib =
  lc_start :: "language_client \<Rightarrow> (js_error + unit) \<times> client_state"
  lc_stop :: "language_client \<Rightarrow> (js_error + unit) \<times> client_state"

subsection \<open>Calls across the boundary\<close>

definition vscode_fs_stat :: "env \<Rightarrow> string \<Rightarrow> world \<Rightarrow> (js_error + unit) \<times> world" where
  "vscode_fs_stat env p w = (fs_stat env p, emit (FsStat p) w)"

definition child_process_execSync ::
    "env \<Rightarrow> string \<Rightarrow> world \<Rightarrow> (js_error + string) \<times> world" where
  "child_process_execSync env c w = (execSync env c, emit (ExecSync c) w)"

subsection \<open>\<^verbatim>\<open>findOxideLsp\<close>\<close>

definition release_path :: "env \<Rightarrow> string \<Rightarrow> string" where
  "release_path env folder = path_join env [folder, ''target'', ''release'', ''oxide-lsp'']"

definition debug_path :: "env \<Rightarrow> string \<Rightarrow> string" where
  "debug_path env folder = path_join env [folder, ''target'', ''debug'', ''oxide-lsp'']"

definition localPaths :: "env \<Rightarrow> string \<Rightarrow> string list" where
  "localPaths env folder = [release_path env folder, debug_path env folder]"

definition bundledPath :: "env \<Rightarrow> string" where
  "bundledPath env = path_join env [extensionPath env, ''bin'', ''oxide-lsp'']"

definition whichCommand :: "env \<Rightarrow> string" where
  "whichCommand env = (if platform env = ''win32'' then ''where'' else ''which'')"

text \<open>
  The inner loop \<^verbatim>\<open>for (const localPath of localPaths)\<close>. The result \<open>Inr (Some p)\<close>
  is the \<^verbatim>\<open>return localPath\<close> inside the loop; \<open>Inr None\<close> is the loop running to its
  end. The branch \<open>Inl\<close> of the stat is the empty \<^verbatim>\<open>catch\<close> block.
\<close>

fun localPaths_loop ::
    "env \<Rightarrow> string list \<Rightarrow> world \<Rightarrow> (js_error + string option) \<times> world" where
  "localPaths_loop env [] w = (Inr None, w)"
| "localPaths_loop env (localPath # rest) w =
     (case vscode_fs_stat env localPath w of
        (Inr _, w') \<Rightarrow> (Inr (Some localPath), w')
      | (Inl _, w') \<Rightarrow> localPaths_loop env rest w')"

text \<open>The outer loop \<^verbatim>\<open>for (const folder of workspaceFolders)\<close>.\<close>

fun folders_loop ::
    "env \<Rightarrow> string list \<Rightarrow> world \<Rightarrow> (js_error + string option) \<times> world" where
  "folders_loop env [] w = (Inr None, w)"
| "folders_loop env (folder # rest) w =
     (case localPaths_loop env (localPaths env folder) w of
        (Inr None, w') \<Rightarrow> folders_loop env rest w'
      | (Inr (Some p), w') \<Rightarrow> (Inr (Some p), w')
      | (Inl e, w') \<Rightarrow> (Inl e, w'))"

definition findOxideLsp :: "env \<Rightarrow> world \<Rightarrow> (js_error + string option) \<times> world" where
  "findOxideLsp env w =
     (case (case workspaceFolders env of
              None \<Rightarrow> (Inr None, w)
            | Some folders \<Rightarrow> folders_loop env folders w) of
        (Inr None, w1) \<Rightarrow>
          (case vscode_fs_stat env (bundledPath env) w1 of
             (Inr _, w2) \<Rightarrow> (Inr (Some (bundledPath env)), w2)
           | (Inl _, w2) \<Rightarrow>
               (case child_process_execSync env (whichCommand env @ '' oxide-lsp'') w2 of
                  (Inr result, w3) \<Rightarrow>
                    (Inr (js_index0 (js_split (CHR 0x0A) (js_trim result))), w3)
                | (Inl _, w3) \<Rightarrow> (Inr None, w3)))
      | (Inr (Some p), w1) \<Rightarrow> (Inr (Some p), w1)
      | (Inl e, w1) \<Rightarrow> (Inl e, w1))"

subsection \<open>\<^verbatim>\<open>startLspClient\<close>\<close>

text \<open>
  Lines 64 to 70 of the source: the configured path when it is truthy, the search
  otherwise. This is the operation the specification calls \<open>resolve\<close>.
\<close>

definition startLspClient_resolve ::
    "env \<Rightarrow> world \<Rightarrow> (js_error + string option) \<times> world" where
  "startLspClient_resolve env w =
     (if falsy (config_lsp_path env) then findOxideLsp env w
      else (Inr (config_lsp_path env), w))"

definition not_found_warning :: string where
  "not_found_warning =
     ''oxide-lsp not found. Some features will be unavailable. '' @
     ''Install OxideKit CLI or set oxidekit.lsp.path in settings.''"

definition make_serverOptions :: "env \<Rightarrow> string \<Rightarrow> server_options" where
  "make_serverOptions env serverPath =
     \<lparr>run = \<lparr>command = serverPath, transport = stdio, options_env = None\<rparr>,
      debug = \<lparr>command = serverPath, transport = stdio,
               options_env = Some ((process_env env)(''RUST_LOG'' \<mapsto> ''oxide_lsp=debug''))\<rparr>\<rparr>"

definition make_clientOptions :: client_options where
  "make_clientOptions =
     \<lparr>documentSelector =
        [LanguageFilter ''file'' ''oui'',
         PatternFilter ''file'' ''**/oxide.toml'',
         PatternFilter ''file'' ''**/plugin.toml'',
         PatternFilter ''file'' ''**/theme.toml'',
         PatternFilter ''file'' ''**/typography.toml'',
         PatternFilter ''file'' ''**/fonts.toml''],
      synchronize_fileEvents = ''**/*.{oui,toml}'',
      outputChannel = ''OxideKit Language Server''\<rparr>"

text \<open>
  \<^verbatim>\<open>client.start()\<close> and \<^verbatim>\<open>client.stop()\<close> on the module-level variable. On
  \<^verbatim>\<open>undefined\<close> the member access throws a \<^verbatim>\<open>TypeError\<close>. The object the variable
  refers to is updated in place; the variable itself is not written.
\<close>

definition client_start :: "lc_lib \<Rightarrow> world \<Rightarrow> (js_error + unit) \<times> world" where
  "client_start lib w =
     (case client w of
        None \<Rightarrow> (Inl (JsError ''TypeError''), w)
      | Some c \<Rightarrow>
          (fst (lc_start lib c),
           (emit ClientStart w)\<lparr>client := Some (c\<lparr>state := snd (lc_start lib c)\<rparr>)\<rparr>))"

definition client_stop :: "lc_lib \<Rightarrow> world \<Rightarrow> (js_error + unit) \<times> world" where
  "client_stop lib w =
     (case client w of
        None \<Rightarrow> (Inl (JsError ''TypeError''), w)
      | Some c \<Rightarrow>
          (fst (lc_stop lib c),
           (emit ClientStop w)\<lparr>client := Some (c\<lparr>state := snd (lc_stop lib c)\<rparr>)\<rparr>))"

text \<open>
  Lines 72 to 119 of the source, what the specification calls \<open>start\<close>. The promise of
  \<^verbatim>\<open>client.start()\<close> is pushed to the subscriptions and not awaited, so its outcome is
  dropped.
\<close>

definition startLspClient_launch ::
    "env \<Rightarrow> lc_lib \<Rightarrow> string option \<Rightarrow> world \<Rightarrow> (js_error + unit) \<times> world" where
  "startLspClient_launch env lib serverPath w =
     (if falsy serverPath then (Inr (), emit (ShowWarningMessage not_found_warning) w)
      else
        (case serverPath of
           None \<Rightarrow> (Inr (), emit (ShowWarningMessage not_found_warning) w)
         | Some sp \<Rightarrow>
             (let w1 = emit (CreateFileSystemWatcher ''**/*.{oui,toml}'') w;
                  w2 = emit (CreateOutputChannel ''OxideKit Language Server'') w1;
                  c = \<lparr>client_id = ''oxidekit'', client_name = ''OxideKit Language Server'',
                       serverOptions = make_serverOptions env sp,
                       clientOptions = make_clientOptions, state = Initial\<rparr>;
                  w3 = (emit (NewLanguageClient ''oxidekit'' ''OxideKit Language Server'') w2)
                         \<lparr>client := Some c\<rparr>;
                  w4 = snd (client_start lib w3)
              in (Inr (), w4\<lparr>subscriptions := subscriptions w4 @ [ClientStartResult]\<rparr>))))"

definition startLspClient :: "env \<Rightarrow> lc_lib \<Rightarrow> world \<Rightarrow> (js_error + unit) \<times> world" where
  "startLspClient env lib w =
     (case startLspClient_resolve env w of
        (Inl e, w') \<Rightarrow> (Inl e, w')
      | (Inr serverPath, w') \<Rightarrow> startLspClient_launch env lib serverPath w')"

subsection \<open>Registration, \<^verbatim>\<open>activate\<close>, \<^verbatim>\<open>deactivate\<close>, \<^verbatim>\<open>restartLsp\<close>\<close>

definition command_ids :: "string list" where
  "command_ids =
     [''oxidekit.startDevServer'', ''oxidekit.stopDevServer'',
      ''oxidekit.buildDesktop'', ''oxidekit.buildStatic'',
      ''oxidekit.validateProject'', ''oxidekit.addPlugin'', ''oxidekit.newPlugin'',
      ''oxidekit.i18nCheck'',
      ''oxidekit.figmaImport'',
      ''oxidekit.restartLsp'',
      ''oxidekit.showPreview'', ''oxidekit.showTokenExplorer'',
      ''oxidekit.createComponent'', ''oxidekit.extractComponent'',
      ''oxidekit.wrapWithContainer'', ''oxidekit.wrapWithColumn'', ''oxidekit.wrapWithRow'',
      ''oxidekit.showMigrationGuide'']"

definition registerCommands :: "world \<Rightarrow> world" where
  "registerCommands w =
     w\<lparr>events := events w @ map RegisterCommand command_ids,
       subscriptions := subscriptions w @ map CommandRegistration command_ids\<rparr>"

definition registerTreeViews :: "world \<Rightarrow> world" where
  "registerTreeViews w =
     w\<lparr>events := events w @
         [RegisterTreeDataProvider ''oxidekit-components'',
          RegisterTreeDataProvider ''oxidekit-tokens'',
          RegisterTreeDataProvider ''oxidekit-i18n'']\<rparr>"

definition activate :: "env \<Rightarrow> lc_lib \<Rightarrow> world \<Rightarrow> (js_error + unit) \<times> world" where
  "activate env lib w =
     (case startLspClient env lib (emit (ConsoleLog ''OxideKit extension activating...'') w) of
        (Inl e, w1) \<Rightarrow> (Inl e, w1)
      | (Inr _, w1) \<Rightarrow>
          (Inr (), emit (ConsoleLog ''OxideKit extension activated'')
                     (registerTreeViews (registerCommands w1))))"

definition deactivate :: "lc_lib \<Rightarrow> world \<Rightarrow> (js_error + unit) \<times> world" where
  "deactivate lib w =
     (let w0 = emit (ConsoleLog ''OxideKit extension deactivating...'') w;
          w1 = (case devServerTerminal w0 of
                  Some t \<Rightarrow> emit (TerminalDispose t) w0
                | None \<Rightarrow> w0)
      in if client w1 \<noteq> None then client_stop lib w1 else (Inr (), w1))"

definition restartLsp :: "lc_lib \<Rightarrow> world \<Rightarrow> (js_error + unit) \<times> world" where
  "restartLsp lib w =
     (if client w \<noteq> None then
        (case client_stop lib w of
           (Inl e, w1) \<Rightarrow> (Inl e, w1)
         | (Inr _, w1) \<Rightarrow>
             (case client_start lib w1 of
                (Inl e, w2) \<Rightarrow> (Inl e, w2)
              | (Inr _, w2) \<Rightarrow>
                  (Inr (), emit (ShowInformationMessage
                                   ''OxideKit language server restarted'') w2)))
      else (Inr (), w))"




subsection \<open>The search order as the specification words it\<close>

text \<open>
  The specification describes the search as an ordered list of candidates, the first
  match winning and no further candidate being checked. The definitions of this
  subsection follow those words; they are compared with \<open>findOxideLsp\<close> below. A
  candidate is written as the event probing it: a stat of a path, or the lookup command.
\<close>

definition spec_root_candidates :: "env \<Rightarrow> string list \<Rightarrow> event list" where
  "spec_root_candidates env roots =
     concat (map (\<lambda>root. [FsStat (release_path env root), FsStat (debug_path env root)])
                 roots)"

definition spec_workspace_candidates :: "env \<Rightarrow> event list" where
  "spec_workspace_candidates env =
     (case workspaceFolders env of
        None \<Rightarrow> []
      | Some roots \<Rightarrow> spec_root_candidates env roots)"

definition spec_candidates :: "env \<Rightarrow> event list" where
  "spec_candidates env =
     spec_workspace_candidates env @
     [FsStat (bundledPath env), ExecSync (whichCommand env @ '' oxide-lsp'')]"

fun probe_succeeds :: "env \<Rightarrow> event \<Rightarrow> bool" where
  "probe_succeeds env (FsStat p) = (case fs_stat env p of Inr _ \<Rightarrow> True | Inl _ \<Rightarrow> False)"
| "probe_succeeds env (ExecSync c) = (case execSync env c of Inr _ \<Rightarrow> True | Inl _ \<Rightarrow> False)"
| "probe_succeeds env _ = False"

fun probe_value :: "env \<Rightarrow> event \<Rightarrow> string option" where
  "probe_value env (FsStat p) = Some p"
| "probe_value env (ExecSync c) =
     (case execSync env c of
        Inr out \<Rightarrow> js_index0 (js_split (CHR 0x0A) (js_trim out))
      | Inl _ \<Rightarrow> None)"
| "probe_value env _ = None"

text \<open>
  \<open>spec_first_match env cs\<close> gives the value of the first candidate of \<open>cs\<close> that
  succeeds, with the candidates probed on the way, that one included and none after it.
\<close>

fun spec_first_match :: "env \<Rightarrow> event list \<Rightarrow> string option \<times> event list" where
  "spec_first_match env [] = (None, [])"
| "spec_first_match env (c # cs) =
     (if probe_succeeds env c then (probe_value env c, [c])
      else (fst (spec_first_match env cs), c # snd (spec_first_match env cs)))"

subsection \<open>Concrete surroundings\<close>

text \<open>
  The POSIX variant of Node's \<^verbatim>\<open>path.join\<close>: the non-empty arguments are joined with a
  slash and the result is normalised (empty and \<^verbatim>\<open>.\<close> segments dropped, \<^verbatim>\<open>..\<close>
  cancelling the segment before it, a trailing slash kept). It instantiates the
  parameter \<open>path_join\<close> in the concrete scenarios below.
\<close>

fun join_with :: "string \<Rightarrow> string list \<Rightarrow> string" where
  "join_with sep [] = []"
| "join_with sep [x] = x"
| "join_with sep (x # y # ys) = x @ sep @ join_with sep (y # ys)"

fun normalize_segments :: "bool \<Rightarrow> string list \<Rightarrow> string list \<Rightarrow> string list" where
  "normalize_segments allowAboveRoot acc [] = rev acc"
| "normalize_segments allowAboveRoot acc (s # ss) =
     (if s = [] \<or> s = ''.'' then normalize_segments allowAboveRoot acc ss
      else if s = ''..'' then
        (case acc of
           [] \<Rightarrow> normalize_segments allowAboveRoot (if allowAboveRoot then [s] else []) ss
         | t # ts \<Rightarrow>
             (if t = ''..''
              then normalize_segments allowAboveRoot (if allowAboveRoot then s # acc else acc) ss
              else normalize_segments allowAboveRoot ts ss))
      else normalize_segments allowAboveRoot (s # acc) ss)"

definition posix_normalize :: "string \<Rightarrow> string" where
  "posix_normalize path =
     (if path = [] then ''.''
      else
        (let isAbsolute = (hd path = CHR ''/'');
             trailingSeparator = (last path = CHR ''/'');
             p = join_with ''/'' (normalize_segments (\<not> isAbsolute) []
                                    (js_split (CHR ''/'') path))
         in if p = [] then (if isAbsolute then ''/'' else if trailingSeparator then ''./'' else ''.'')
            else (if isAbsolute then ''/'' else []) @ p @
                 (if trailingSeparator then ''/'' else [])))"

definition posix_join :: "string list \<Rightarrow> string" where
  "posix_join args =
     (let joined = join_with ''/'' (filter (\<lambda>a. a \<noteq> []) args)
      in if joined = [] then ''.'' else posix_normalize joined)"

text \<open>A world in which nothing has happened yet.\<close>

definition world0 :: world where
  "world0 = \<lparr>client = None, devServerTerminal = None, subscriptions = [], events = []\<rparr>"

text \<open>A library whose \<^verbatim>\<open>start\<close> and \<^verbatim>\<open>stop\<close> always succeed.\<close>

definition lib_ok :: lc_lib where
  "lib_ok = \<lparr>lc_start = (\<lambda>c. (Inr (), Running)), lc_stop = (\<lambda>c. (Inr (), Stopped))\<rparr>"

text \<open>
  A library whose \<^verbatim>\<open>start\<close> always succeeds and whose \<^verbatim>\<open>stop\<close> rejects because the
  server does not shut down in time; the client is left stopped.
\<close>

definition lib_stop_times_out :: lc_lib where
  "lib_stop_times_out =
     \<lparr>lc_start = (\<lambda>c. (Inr (), Running)),
      lc_stop = (\<lambda>c. (Inl (JsError ''Stopping the server timed out''), Stopped))\<rparr>"

text \<open>
  A library on a machine where the server cannot be launched: \<^verbatim>\<open>start\<close> rejects and
  leaves the client in \<open>StartFailed\<close>; \<^verbatim>\<open>stop\<close> shuts a running client down, returns at
  once on a client that is new or stopped, and rejects on a client in any other state,
  which it leaves as it is.
\<close>

definition lib_launch_fails :: lc_lib where
  "lib_launch_fails =
     \<lparr>lc_start = (\<lambda>c. (Inl (JsError ''spawn ENOENT''), StartFailed)),
      lc_stop = (\<lambda>c. if state c = Running then (Inr (), Stopped)
                       else if state c = Initial \<or> state c = Stopped then (Inr (), state c)
                       else (Inl (JsError ''Client is not running''), state c))\<rparr>"

text \<open>
  A Linux machine with the workspace root \<^verbatim>\<open>/proj\<close>, in which only
  \<^verbatim>\<open>/proj/target/debug/oxide-lsp\<close> exists; nothing is configured, the extension
  bundles no binary and \<^verbatim>\<open>which\<close> finds none.
\<close>

definition env_proj :: env where
  "env_proj =
     \<lparr>config_lsp_path = None,
      workspaceFolders = Some [''/proj''],
      extensionPath = ''/ext'',
      platform = ''linux'',
      process_env = Map.empty,
      path_join = posix_join,
      fs_stat = (\<lambda>p. if p = ''/proj/target/debug/oxide-lsp'' then Inr ()
                      else Inl (JsError ''FileNotFound'')),
      execSync = (\<lambda>c. Inl (JsError ''Command failed''))\<rparr>"

text \<open>The same machine with nothing built: no candidate exists anywhere.\<close>

definition env_none :: env where
  "env_none = env_proj\<lparr>fs_stat := (\<lambda>p. Inl (JsError ''FileNotFound''))\<rparr>"

text \<open>The same machine with a path configured that does not exist.\<close>

definition env_configured :: env where
  "env_configured = env_none\<lparr>config_lsp_path := Some ''/no/such/oxide-lsp''\<rparr>"

text \<open>
  The client that \<open>startLspClient\<close> creates for the configured path, once started by
  \<open>lib_ok\<close>, and the world that this leaves.
\<close>

definition client0 :: language_client where
  "client0 =
     \<lparr>client_id = ''oxidekit'', client_name = ''OxideKit Language Server'',
      serverOptions = make_serverOptions env_configured ''/no/such/oxide-lsp'',
      clientOptions = make_clientOptions, state = Running\<rparr>"

definition world_started :: world where
  "world_started =
     \<lparr>client = Some client0, devServerTerminal = None,
      subscriptions = [ClientStartResult],
      events = [CreateFileSystemWatcher ''**/*.{oui,toml}'',
                CreateOutputChannel ''OxideKit Language Server'',
                NewLanguageClient ''oxidekit'' ''OxideKit Language Server'',
                ClientStart]\<rparr>"

text \<open>
  The world that \<open>startLspClient\<close> leaves for the configured path when the launch
  fails: the client exists, in state \<open>StartFailed\<close>.
\<close>

definition world_start_failed :: world where
  "world_start_failed = world_started\<lparr>client := Some (client0\<lparr>state := StartFailed\<rparr>)\<rparr>"

text \<open>
  What every \<open>deactivate\<close> logs before it turns to the client, and what every
  \<open>activate\<close> logs after \<open>startLspClient\<close> has returned.
\<close>

definition deactivate_prologue :: "world \<Rightarrow> event list" where
  "deactivate_prologue w =
     ConsoleLog ''OxideKit extension deactivating...'' #
     (case devServerTerminal w of Some t \<Rightarrow> [TerminalDispose t] | None \<Rightarrow> [])"

definition registration_events :: "event list" where
  "registration_events =
     map RegisterCommand command_ids @
     [RegisterTreeDataProvider ''oxidekit-components'',
      RegisterTreeDataProvider ''oxidekit-tokens'',
      RegisterTreeDataProvider ''oxidekit-i18n'',
      ConsoleLog ''OxideKit extension activated'']"

text \<open>
  A Windows machine: the path setting has its default, the empty string, no folder is
  open, nothing is bundled, and \<^verbatim>\<open>where oxide-lsp\<close> finds two binaries. \<open>win32_join_plain\<close>
  is Node's \<^verbatim>\<open>path.win32.join\<close> on arguments that need no normalisation.
\<close>

definition backslash :: string where
  "backslash = [CHR 0x5C]"

definition where_first_match :: string where
  "where_first_match = ''C:'' @ backslash @ ''Tools'' @ backslash @ ''oxide-lsp.exe''"

definition where_second_match :: string where
  "where_second_match = ''D:'' @ backslash @ ''oxide'' @ backslash @ ''oxide-lsp.exe''"

definition where_output :: string where
  "where_output =
     where_first_match @ [CHR 0x0D, CHR 0x0A] @ where_second_match @ [CHR 0x0D, CHR 0x0A]"

definition win32_join_plain :: "string list \<Rightarrow> string" where
  "win32_join_plain args = join_with backslash (filter (\<lambda>a. a \<noteq> []) args)"

definition env_win :: env where
  "env_win =
     \<lparr>config_lsp_path = Some [],
      workspaceFolders = None,
      extensionPath = ''C:'' @ backslash @ ''ext'',
      platform = ''win32'',
      process_env = Map.empty,
      path_join = win32_join_plain,
      fs_stat = (\<lambda>p. Inl (JsError ''FileNotFound'')),
      execSync = (\<lambda>c. if c = ''where oxide-lsp'' then Inr where_output
                        else Inl (JsError ''Command failed''))\<rparr>"

section \<open>Properties\<close>

subsection \<open>The event log\<close>

lemma emit_sel [simp]:
  "events (emit e w) = events w @ [e]"
  "client (emit e w) = client w"
  "devServerTerminal (emit e w) = devServerTerminal w"
  "subscriptions (emit e w) = subscriptions w"
  by (simp_all add: emit_def)

lemma append_events_sel [simp]:
  "events (append_events es w) = events w @ es"
  "client (append_events es w) = client w"
  "devServerTerminal (append_events es w) = devServerTerminal w"
  "subscriptions (append_events es w) = subscriptions w"
  by (simp_all add: append_events_def)

lemma append_events_Nil: "append_events [] w = w"
  by (simp add: append_events_def)

lemma append_events_emit: "append_events es (emit e w) = append_events (e # es) w"
  by (simp add: append_events_def emit_def)

lemma emit_append_events: "emit e (append_events es w) = append_events (es @ [e]) w"
  by (simp add: append_events_def emit_def)

lemma emit_as_append: "emit e w = append_events [e] w"
  by (simp add: append_events_def emit_def)

lemma append_events_twice: "append_events es (append_events ds w) = append_events (ds @ es) w"
  by (simp add: append_events_def)

lemma localPaths_loop_first_match:
  "localPaths_loop env ps w =
     (Inr (fst (spec_first_match env (map FsStat ps))),
      append_events (snd (spec_first_match env (map FsStat ps))) w)"
proof (induction ps arbitrary: w)
  case Nil
  show ?case by (simp add: append_events_Nil)
next
  case (Cons p ps)
  show ?case
  proof (cases "fs_stat env p")
    case (Inl e)
    then show ?thesis
      by (simp add: vscode_fs_stat_def Cons.IH append_events_emit)
  next
    case (Inr u)
    then show ?thesis
      by (simp add: vscode_fs_stat_def emit_as_append)
  qed
qed

lemma first_match_stat_none:
  "(fst (spec_first_match env (map FsStat ps)) = None) =
     (\<not> list_ex (probe_succeeds env) (map FsStat ps))"
  by (induction ps) auto

lemma first_match_append:
  "spec_first_match env (xs @ ys) =
     (if list_ex (probe_succeeds env) xs then spec_first_match env xs
      else (fst (spec_first_match env ys), xs @ snd (spec_first_match env ys)))"
  by (induction xs) auto

lemma first_match_fails:
  "\<not> list_ex (probe_succeeds env) xs \<Longrightarrow> spec_first_match env xs = (None, xs)"
  by (induction xs) auto

lemma first_match_prefix:
  "\<exists>rest. cs = snd (spec_first_match env cs) @ rest"
  by (induction cs) auto

lemma root_candidates_Cons:
  "spec_root_candidates env (f # fs) =
     map FsStat (localPaths env f) @ spec_root_candidates env fs"
  by (simp add: spec_root_candidates_def localPaths_def)

lemma root_candidates_append:
  "spec_root_candidates env (fs @ gs) =
     spec_root_candidates env fs @ spec_root_candidates env gs"
  by (simp add: spec_root_candidates_def)

lemma first_match_roots_none:
  "(fst (spec_first_match env (spec_root_candidates env fs)) = None) =
     (\<not> list_ex (probe_succeeds env) (spec_root_candidates env fs))"
  by (induction fs) (auto simp: spec_root_candidates_def)

lemma folders_loop_first_match:
  "folders_loop env fs w =
     (Inr (fst (spec_first_match env (spec_root_candidates env fs))),
      append_events (snd (spec_first_match env (spec_root_candidates env fs))) w)"
proof (induction fs arbitrary: w)
  case Nil
  show ?case by (simp add: append_events_Nil spec_root_candidates_def)
next
  case (Cons f fs)
  let ?here = "map FsStat (localPaths env f)"
  show ?case
  proof (cases "list_ex (probe_succeeds env) ?here")
    case True
    then obtain p where "fst (spec_first_match env ?here) = Some p"
      using first_match_stat_none [of env "localPaths env f"] by auto
    with True show ?thesis
      by (simp only: folders_loop.simps localPaths_loop_first_match root_candidates_Cons
            first_match_append) simp
  next
    case False
    then have "spec_first_match env ?here = (None, ?here)"
      by (rule first_match_fails)
    with False show ?thesis
      by (simp only: folders_loop.simps localPaths_loop_first_match root_candidates_Cons
            first_match_append Cons.IH) (simp add: append_events_twice)
  qed
qed

lemma workspace_part_first_match:
  "(case workspaceFolders env of
      None \<Rightarrow> (Inr None, w)
    | Some folders \<Rightarrow> folders_loop env folders w) =
     (Inr (fst (spec_first_match env (spec_workspace_candidates env))),
      append_events (snd (spec_first_match env (spec_workspace_candidates env))) w)"
  by (cases "workspaceFolders env")
     (simp_all add: spec_workspace_candidates_def folders_loop_first_match append_events_Nil)

lemma first_match_workspace_none:
  "(fst (spec_first_match env (spec_workspace_candidates env)) = None) =
     (\<not> list_ex (probe_succeeds env) (spec_workspace_candidates env))"
  by (cases "workspaceFolders env")
     (simp_all add: spec_workspace_candidates_def first_match_roots_none)

lemma findOxideLsp_first_match:
  "findOxideLsp env w =
     (Inr (fst (spec_first_match env (spec_candidates env))),
      append_events (snd (spec_first_match env (spec_candidates env))) w)"
proof (cases "list_ex (probe_succeeds env) (spec_workspace_candidates env)")
  case True
  then obtain p where "fst (spec_first_match env (spec_workspace_candidates env)) = Some p"
    using first_match_workspace_none [of env] by auto
  with True show ?thesis
    by (simp only: findOxideLsp_def workspace_part_first_match spec_candidates_def
          first_match_append) simp
next
  case False
  then have none: "spec_first_match env (spec_workspace_candidates env) =
      (None, spec_workspace_candidates env)"
    by (rule first_match_fails)
  show ?thesis
  proof (cases "fs_stat env (bundledPath env)")
    case (Inr u)
    with False none show ?thesis
      by (simp only: findOxideLsp_def workspace_part_first_match spec_candidates_def
            first_match_append)
         (simp add: vscode_fs_stat_def emit_append_events)
  next
    case (Inl e)
    with False none show ?thesis
      by (simp only: findOxideLsp_def workspace_part_first_match spec_candidates_def
            first_match_append)
         (simp add: vscode_fs_stat_def child_process_execSync_def emit_append_events
            append_events_twice split: sum.splits)
  qed
qed

subsection \<open>The search order\<close>

text \<open>
  Claim C1. The search tries its candidates in strict order and returns the first match
  without checking further ones. \<open>findOxideLsp\<close> returns the value of the first candidate
  of \<open>spec_candidates\<close> that succeeds, and the probes it makes are exactly the candidates
  up to and including that one, in the order of the list: within a root the release path
  before the debug path, every path of an earlier root before any of a later root, then
  the bundled path, then the lookup on the system path; the candidates not probed are
  the rest of the list. In particular, with no configured path, for a root that has the
  debug binary and not the release binary, and no binary in any earlier root, the result
  is that root's debug path, after stats of the earlier roots' paths, the release path and
  the debug path, and of nothing else.
\<close>

theorem resolve_tries_candidates_in_order:
  "findOxideLsp env w =
     (Inr (fst (spec_first_match env (spec_candidates env))),
      append_events (snd (spec_first_match env (spec_candidates env))) w)
   \<and> (\<exists>unprobed. spec_candidates env =
          snd (spec_first_match env (spec_candidates env)) @ unprobed)
   \<and> (falsy (config_lsp_path env)
        \<and> workspaceFolders env = Some (earlier @ root # later)
        \<and> \<not> list_ex (probe_succeeds env) (spec_root_candidates env earlier)
        \<and> \<not> probe_succeeds env (FsStat (release_path env root))
        \<and> probe_succeeds env (FsStat (debug_path env root))
      \<longrightarrow> startLspClient_resolve env w =
            (Inr (Some (debug_path env root)),
             append_events (spec_root_candidates env earlier @
                            [FsStat (release_path env root), FsStat (debug_path env root)]) w))"
proof (intro conjI impI)
  show "findOxideLsp env w =
     (Inr (fst (spec_first_match env (spec_candidates env))),
      append_events (snd (spec_first_match env (spec_candidates env))) w)"
    by (rule findOxideLsp_first_match)
next
  show "\<exists>unprobed. spec_candidates env =
          snd (spec_first_match env (spec_candidates env)) @ unprobed"
    by (rule first_match_prefix)
next
  assume h: "falsy (config_lsp_path env)
        \<and> workspaceFolders env = Some (earlier @ root # later)
        \<and> \<not> list_ex (probe_succeeds env) (spec_root_candidates env earlier)
        \<and> \<not> probe_succeeds env (FsStat (release_path env root))
        \<and> probe_succeeds env (FsStat (debug_path env root))"
  let ?hit = "[FsStat (release_path env root), FsStat (debug_path env root)]"
  have cands: "spec_candidates env =
      spec_root_candidates env earlier @ ?hit @
      (spec_root_candidates env later @
       [FsStat (bundledPath env), ExecSync (whichCommand env @ '' oxide-lsp'')])"
    using h by (simp add: spec_candidates_def spec_workspace_candidates_def
          root_candidates_append root_candidates_Cons localPaths_def)
  have "spec_first_match env (spec_candidates env) =
      (Some (debug_path env root), spec_root_candidates env earlier @ ?hit)"
    using h by (simp only: cands first_match_append) simp
  with h show "startLspClient_resolve env w =
            (Inr (Some (debug_path env root)),
             append_events (spec_root_candidates env earlier @ ?hit) w)"
    by (simp add: startLspClient_resolve_def findOxideLsp_first_match)
qed

lemma proj_paths:
  "release_path env_proj ''/proj'' = ''/proj/target/release/oxide-lsp''"
  "debug_path env_proj ''/proj'' = ''/proj/target/debug/oxide-lsp''"
  "bundledPath env_proj = ''/ext/bin/oxide-lsp''"
  by (simp_all add: release_path_def debug_path_def bundledPath_def env_proj_def
        posix_join_def posix_normalize_def)

theorem resolve_tries_candidates_in_order_witness:
  "falsy (config_lsp_path env_proj)
   \<and> workspaceFolders env_proj = Some ([] @ ''/proj'' # [])
   \<and> \<not> list_ex (probe_succeeds env_proj) (spec_root_candidates env_proj [])
   \<and> \<not> probe_succeeds env_proj (FsStat (release_path env_proj ''/proj''))
   \<and> probe_succeeds env_proj (FsStat (debug_path env_proj ''/proj''))
   \<and> startLspClient_resolve env_proj world0 =
       (Inr (Some ''/proj/target/debug/oxide-lsp''),
        append_events [FsStat ''/proj/target/release/oxide-lsp'',
                       FsStat ''/proj/target/debug/oxide-lsp''] world0)"
proof -
  have h: "falsy (config_lsp_path env_proj)
   \<and> workspaceFolders env_proj = Some ([] @ ''/proj'' # [])
   \<and> \<not> list_ex (probe_succeeds env_proj) (spec_root_candidates env_proj [])
   \<and> \<not> probe_succeeds env_proj (FsStat (release_path env_proj ''/proj''))
   \<and> probe_succeeds env_proj (FsStat (debug_path env_proj ''/proj''))"
    by (simp add: proj_paths spec_root_candidates_def) (simp add: env_proj_def falsy_def)
  from resolve_tries_candidates_in_order [of env_proj world0 "[]" "''/proj''" "[]"] h
  have "startLspClient_resolve env_proj world0 =
      (Inr (Some (debug_path env_proj ''/proj'')),
       append_events (spec_root_candidates env_proj [] @
         [FsStat (release_path env_proj ''/proj''), FsStat (debug_path env_proj ''/proj'')])
         world0)"
    by blast
  then have "startLspClient_resolve env_proj world0 =
       (Inr (Some ''/proj/target/debug/oxide-lsp''),
        append_events [FsStat ''/proj/target/release/oxide-lsp'',
                       FsStat ''/proj/target/debug/oxide-lsp''] world0)"
    by (simp add: proj_paths spec_root_candidates_def)
  with h show ?thesis by blast
qed

subsection \<open>Resolution\<close>

lemma findOxideLsp_returns: "\<exists>r. fst (findOxideLsp env w) = Inr r"
  by (simp add: findOxideLsp_first_match)

text \<open>
  Claim C2. A configured path that is not empty is returned as it is: the result of the
  resolution is that path and the world is the one before, so nothing was statted, no
  command was run and no other candidate was looked at, whether or not the path exists.
\<close>

theorem configured_path_returned_unchecked:
  "config_lsp_path env = Some p \<and> p \<noteq> [] \<longrightarrow>
     startLspClient_resolve env w = (Inr (Some p), w)"
  by (simp add: startLspClient_resolve_def falsy_def)

theorem configured_path_returned_unchecked_witness:
  "config_lsp_path env_configured = Some ''/no/such/oxide-lsp''
   \<and> ''/no/such/oxide-lsp'' \<noteq> []
   \<and> fs_stat env_configured ''/no/such/oxide-lsp'' = Inl (JsError ''FileNotFound'')
   \<and> startLspClient_resolve env_configured world0 = (Inr (Some ''/no/such/oxide-lsp''), world0)"
proof -
  have h: "config_lsp_path env_configured = Some ''/no/such/oxide-lsp''
      \<and> ''/no/such/oxide-lsp'' \<noteq> []"
    by (simp add: env_configured_def)
  have "fs_stat env_configured ''/no/such/oxide-lsp'' = Inl (JsError ''FileNotFound'')"
    by (simp add: env_configured_def env_none_def)
  with h configured_path_returned_unchecked [of env_configured "''/no/such/oxide-lsp''" world0]
  show ?thesis by blast
qed

text \<open>
  Claim C3. The resolution never raises, whatever the environment. When nothing is
  configured and no candidate of any tier succeeds, it returns \<^verbatim>\<open>undefined\<close> after
  probing every candidate once, in order, and doing nothing else. A failed probe does not
  end the search: when the candidates before some candidate all fail, that candidate is
  probed next.
\<close>

theorem resolve_absent_never_raises:
  "(\<exists>r. fst (startLspClient_resolve env w) = Inr r)
   \<and> (falsy (config_lsp_path env)
        \<and> \<not> list_ex (probe_succeeds env) (spec_candidates env)
      \<longrightarrow> startLspClient_resolve env w = (Inr None, append_events (spec_candidates env) w))
   \<and> (falsy (config_lsp_path env)
        \<and> spec_candidates env = failed @ next_candidate # later
        \<and> \<not> list_ex (probe_succeeds env) failed
      \<longrightarrow> (\<exists>more. events (snd (startLspClient_resolve env w)) =
                    events w @ failed @ next_candidate # more))"
proof (intro conjI impI)
  show "\<exists>r. fst (startLspClient_resolve env w) = Inr r"
    by (simp add: startLspClient_resolve_def findOxideLsp_first_match)
next
  assume "falsy (config_lsp_path env)
        \<and> \<not> list_ex (probe_succeeds env) (spec_candidates env)"
  then show "startLspClient_resolve env w = (Inr None, append_events (spec_candidates env) w)"
    by (simp add: startLspClient_resolve_def findOxideLsp_first_match first_match_fails)
next
  assume h: "falsy (config_lsp_path env)
        \<and> spec_candidates env = failed @ next_candidate # later
        \<and> \<not> list_ex (probe_succeeds env) failed"
  have "\<exists>more. snd (spec_first_match env (next_candidate # later)) = next_candidate # more"
    by simp
  then obtain more where
    "snd (spec_first_match env (next_candidate # later)) = next_candidate # more" ..
  with h have "events (snd (startLspClient_resolve env w)) =
      events w @ failed @ next_candidate # more"
    by (simp add: startLspClient_resolve_def findOxideLsp_first_match first_match_append)
  then show "\<exists>more. events (snd (startLspClient_resolve env w)) =
      events w @ failed @ next_candidate # more" ..
qed

lemma none_paths:
  "release_path env_none ''/proj'' = ''/proj/target/release/oxide-lsp''"
  "debug_path env_none ''/proj'' = ''/proj/target/debug/oxide-lsp''"
  "bundledPath env_none = ''/ext/bin/oxide-lsp''"
  by (simp_all add: release_path_def debug_path_def bundledPath_def env_none_def env_proj_def
        posix_join_def posix_normalize_def)

lemma none_candidates:
  "spec_candidates env_none =
     [FsStat ''/proj/target/release/oxide-lsp'', FsStat ''/proj/target/debug/oxide-lsp'',
      FsStat ''/ext/bin/oxide-lsp'', ExecSync ''which oxide-lsp'']"
proof -
  have "workspaceFolders env_none = Some [''/proj'']" and "platform env_none = ''linux''"
    by (simp_all add: env_none_def env_proj_def)
  then show ?thesis
    by (simp add: spec_candidates_def spec_workspace_candidates_def spec_root_candidates_def
          none_paths whichCommand_def)
qed

lemma none_all_fail: "\<not> list_ex (probe_succeeds env_none) (spec_candidates env_none)"
  by (simp add: none_candidates) (simp add: env_none_def env_proj_def)

lemma none_unconfigured: "falsy (config_lsp_path env_none)"
  by (simp add: env_none_def env_proj_def falsy_def)

theorem resolve_absent_never_raises_witness:
  "falsy (config_lsp_path env_none)
   \<and> \<not> list_ex (probe_succeeds env_none) (spec_candidates env_none)
   \<and> startLspClient_resolve env_none world0 =
       (Inr None,
        append_events
          [FsStat ''/proj/target/release/oxide-lsp'', FsStat ''/proj/target/debug/oxide-lsp'',
           FsStat ''/ext/bin/oxide-lsp'', ExecSync ''which oxide-lsp''] world0)"
proof -
  have h: "falsy (config_lsp_path env_none)
      \<and> \<not> list_ex (probe_succeeds env_none) (spec_candidates env_none)"
    using none_unconfigured none_all_fail by simp
  with resolve_absent_never_raises [of env_none world0]
  have "startLspClient_resolve env_none world0 =
      (Inr None, append_events (spec_candidates env_none) world0)"
    by blast
  with h show ?thesis
    by (simp add: none_candidates)
qed

subsection \<open>Starting and restarting\<close>

lemma world_started_reached:
  "startLspClient env_configured lib_ok world0 = (Inr (), world_started)"
  by (simp add: startLspClient_def startLspClient_resolve_def startLspClient_launch_def
        client_start_def emit_def world0_def world_started_def client0_def lib_ok_def
        env_configured_def falsy_def)

lemma resolve_shape:
  "\<exists>r es. startLspClient_resolve env w = (Inr r, append_events es w)"
proof (cases "falsy (config_lsp_path env)")
  case True
  then have "startLspClient_resolve env w =
      (Inr (fst (spec_first_match env (spec_candidates env))),
       append_events (snd (spec_first_match env (spec_candidates env))) w)"
    by (simp add: startLspClient_resolve_def findOxideLsp_first_match)
  then show ?thesis by blast
next
  case False
  then have "startLspClient_resolve env w = (Inr (config_lsp_path env), append_events [] w)"
    by (simp add: startLspClient_resolve_def append_events_Nil)
  then show ?thesis by blast
qed

lemma launch_absent:
  "falsy serverPath \<Longrightarrow>
     startLspClient_launch env lib serverPath w =
       (Inr (), append_events [ShowWarningMessage not_found_warning] w)"
  by (simp add: startLspClient_launch_def emit_as_append)

lemma launch_returns: "fst (startLspClient_launch env lib serverPath w) = Inr ()"
  by (simp add: startLspClient_launch_def Let_def split: option.splits)

lemma startLspClient_returns: "fst (startLspClient env lib w) = Inr ()"
proof -
  obtain r es where "startLspClient_resolve env w = (Inr r, append_events es w)"
    using resolve_shape by blast
  then show ?thesis
    by (simp add: startLspClient_def launch_returns)
qed

text \<open>
  Claim C4. Starting with an absent path (\<^verbatim>\<open>undefined\<close> or the empty string) shows the
  warning once and does nothing else: no file watcher, no output channel, no client, no
  call of \<^verbatim>\<open>start\<close>, no subscription; the variable \<^verbatim>\<open>client\<close> keeps its value, so a
  handle that is absent stays absent. The same holds of \<open>startLspClient\<close> as a whole when
  its resolution ends with an absent path: after the probes, the warning is the only event.
\<close>

theorem start_absent_warns_once:
  "(falsy serverPath \<longrightarrow>
      startLspClient_launch env lib serverPath w =
        (Inr (), append_events [ShowWarningMessage not_found_warning] w)
      \<and> client (snd (startLspClient_launch env lib serverPath w)) = client w
      \<and> subscriptions (snd (startLspClient_launch env lib serverPath w)) = subscriptions w)
   \<and> (fst (startLspClient_resolve env w) = Inr serverPath \<and> falsy serverPath \<longrightarrow>
      startLspClient env lib w =
        (Inr (), append_events [ShowWarningMessage not_found_warning]
                   (snd (startLspClient_resolve env w)))
      \<and> client (snd (startLspClient env lib w)) = client w)"
proof (intro conjI impI)
  assume "falsy serverPath"
  then show "startLspClient_launch env lib serverPath w =
        (Inr (), append_events [ShowWarningMessage not_found_warning] w)"
    and "client (snd (startLspClient_launch env lib serverPath w)) = client w"
    and "subscriptions (snd (startLspClient_launch env lib serverPath w)) = subscriptions w"
    by (simp_all add: launch_absent)
next
  assume h: "fst (startLspClient_resolve env w) = Inr serverPath \<and> falsy serverPath"
  obtain r es where shape: "startLspClient_resolve env w = (Inr r, append_events es w)"
    using resolve_shape by blast
  with h have r: "r = serverPath" by simp
  from h shape r show "startLspClient env lib w =
        (Inr (), append_events [ShowWarningMessage not_found_warning]
                   (snd (startLspClient_resolve env w)))"
    by (simp add: startLspClient_def launch_absent)
  from h shape r show "client (snd (startLspClient env lib w)) = client w"
    by (simp add: startLspClient_def launch_absent)
qed

theorem start_absent_warns_once_witness:
  "falsy None
   \<and> client world0 = None
   \<and> startLspClient_launch env_none lib_ok None world0 =
       (Inr (), append_events [ShowWarningMessage not_found_warning] world0)
   \<and> client (snd (startLspClient_launch env_none lib_ok None world0)) = None
   \<and> fst (startLspClient_resolve env_none world0) = Inr None
   \<and> events (snd (startLspClient env_none lib_ok world0)) =
       [FsStat ''/proj/target/release/oxide-lsp'', FsStat ''/proj/target/debug/oxide-lsp'',
        FsStat ''/ext/bin/oxide-lsp'', ExecSync ''which oxide-lsp'',
        ShowWarningMessage not_found_warning]
   \<and> client (snd (startLspClient env_none lib_ok world0)) = None"
proof -
  have f: "falsy None" by (simp add: falsy_def)
  have c: "client world0 = None" by (simp add: world0_def)
  have r: "startLspClient_resolve env_none world0 =
      (Inr None, append_events (spec_candidates env_none) world0)"
    using none_unconfigured none_all_fail
    by (simp add: startLspClient_resolve_def findOxideLsp_first_match first_match_fails)
  from start_absent_warns_once [of None env_none lib_ok world0] f r c
  show ?thesis
    by (simp add: none_candidates) (simp add: world0_def)
qed

text \<open>
  Claim C7. Without a handle, a restart does nothing: it returns normally and leaves the
  world, the event log included, as it was.
\<close>

theorem restart_without_handle_is_noop:
  "client w = None \<longrightarrow> restartLsp lib w = (Inr (), w)"
  by (simp add: restartLsp_def)

theorem restart_without_handle_is_noop_witness:
  "client world0 = None \<and> restartLsp lib_ok world0 = (Inr (), world0)"
  using restart_without_handle_is_noop [of world0 lib_ok]
  by (simp add: world0_def)

subsection \<open>Activation\<close>

lemma registration_sel:
  "events (registerTreeViews (registerCommands w)) =
     events w @ map RegisterCommand command_ids @
     [RegisterTreeDataProvider ''oxidekit-components'',
      RegisterTreeDataProvider ''oxidekit-tokens'',
      RegisterTreeDataProvider ''oxidekit-i18n'']"
  "client (registerTreeViews (registerCommands w)) = client w"
  "subscriptions (registerTreeViews (registerCommands w)) =
     subscriptions w @ map CommandRegistration command_ids"
  by (simp_all add: registerTreeViews_def registerCommands_def)

lemma activate_unfolded:
  "activate env lib w =
     (Inr (), emit (ConsoleLog ''OxideKit extension activated'')
                (registerTreeViews (registerCommands
                   (snd (startLspClient env lib
                           (emit (ConsoleLog ''OxideKit extension activating...'') w))))))"
proof -
  let ?w0 = "emit (ConsoleLog ''OxideKit extension activating...'') w"
  have "fst (startLspClient env lib ?w0) = Inr ()"
    by (rule startLspClient_returns)
  then obtain w1 where "startLspClient env lib ?w0 = (Inr (), w1)"
    by (cases "startLspClient env lib ?w0") simp
  then show ?thesis
    by (simp add: activate_def)
qed

text \<open>
  Claim C9. Activation completes without throwing, whatever the environment and the
  library do: a stat that rejects and a lookup command that throws are caught, and the
  promise of \<^verbatim>\<open>client.start()\<close> is not awaited, so its rejection does not reach
  \<open>activate\<close>. In every case the log of the activation ends with the registration of all
  commands and tree views. When the resolution ends with an absent path, the activation
  logs the probes, the warning, and then the whole registration; the variable
  \<^verbatim>\<open>client\<close> keeps its value and the command registrations are pushed to the
  subscriptions. Calls of the editor API itself (showing a message, creating a watcher or
  a channel, registering a command) and the constructor of the client are taken to return
  normally.
\<close>

theorem activate_completes_without_binary:
  "fst (activate env lib w) = Inr ()
   \<and> (\<exists>before. events (snd (activate env lib w)) = before @ registration_events)
   \<and> (fst (startLspClient_resolve env
              (emit (ConsoleLog ''OxideKit extension activating...'') w)) = Inr serverPath
        \<and> falsy serverPath
      \<longrightarrow> events (snd (activate env lib w)) =
            events (snd (startLspClient_resolve env
                           (emit (ConsoleLog ''OxideKit extension activating...'') w)))
            @ [ShowWarningMessage not_found_warning] @ registration_events
          \<and> client (snd (activate env lib w)) = client w
          \<and> subscriptions (snd (activate env lib w)) =
              subscriptions w @ map CommandRegistration command_ids)"
proof (intro conjI impI)
  show "fst (activate env lib w) = Inr ()"
    by (simp add: activate_unfolded)
next
  show "\<exists>before. events (snd (activate env lib w)) = before @ registration_events"
    by (simp add: activate_unfolded registration_sel registration_events_def)
next
  let ?w0 = "emit (ConsoleLog ''OxideKit extension activating...'') w"
  assume h: "fst (startLspClient_resolve env ?w0) = Inr serverPath \<and> falsy serverPath"
  obtain r es where shape: "startLspClient_resolve env ?w0 = (Inr r, append_events es ?w0)"
    using resolve_shape by blast
  with h have "r = serverPath" by simp
  with h shape have s: "startLspClient env lib ?w0 =
      (Inr (), append_events [ShowWarningMessage not_found_warning] (append_events es ?w0))"
    by (simp add: startLspClient_def launch_absent)
  from s shape show "events (snd (activate env lib w)) =
      events (snd (startLspClient_resolve env ?w0))
      @ [ShowWarningMessage not_found_warning] @ registration_events"
    by (simp add: activate_unfolded registration_sel registration_events_def)
  from s show "client (snd (activate env lib w)) = client w"
    by (simp add: activate_unfolded registration_sel)
  from s show "subscriptions (snd (activate env lib w)) =
      subscriptions w @ map CommandRegistration command_ids"
    by (simp add: activate_unfolded registration_sel)
qed

theorem activate_completes_without_binary_witness:
  "fst (startLspClient_resolve env_none
          (emit (ConsoleLog ''OxideKit extension activating...'') world0)) = Inr None
   \<and> falsy None
   \<and> fst (activate env_none lib_ok world0) = Inr ()
   \<and> events (snd (activate env_none lib_ok world0)) =
       [ConsoleLog ''OxideKit extension activating...'',
        FsStat ''/proj/target/release/oxide-lsp'', FsStat ''/proj/target/debug/oxide-lsp'',
        FsStat ''/ext/bin/oxide-lsp'', ExecSync ''which oxide-lsp'',
        ShowWarningMessage not_found_warning] @ registration_events
   \<and> client (snd (activate env_none lib_ok world0)) = None"
proof -
  let ?w0 = "emit (ConsoleLog ''OxideKit extension activating...'') world0"
  have f: "falsy None" by (simp add: falsy_def)
  have r: "startLspClient_resolve env_none ?w0 =
      (Inr None, append_events (spec_candidates env_none) ?w0)"
    using none_unconfigured none_all_fail
    by (simp add: startLspClient_resolve_def findOxideLsp_first_match first_match_fails)
  from activate_completes_without_binary [of env_none lib_ok world0 None] f r
  show ?thesis
    by (simp add: none_candidates) (simp add: world0_def)
qed

subsection \<open>Restart and deactivation\<close>

lemma started_client: "client world_started = Some client0"
  by (simp add: world_started_def)

lemma client_stop_some:
  "client w = Some c \<Longrightarrow>
     client_stop lib w =
       (fst (lc_stop lib c),
        (append_events [ClientStop] w)\<lparr>client := Some (c\<lparr>state := snd (lc_stop lib c)\<rparr>)\<rparr>)"
  by (simp add: client_stop_def emit_as_append)

lemma client_start_some:
  "client w = Some c \<Longrightarrow>
     client_start lib w =
       (fst (lc_start lib c),
        (append_events [ClientStart] w)\<lparr>client := Some (c\<lparr>state := snd (lc_start lib c)\<rparr>)\<rparr>)"
  by (simp add: client_start_def emit_as_append)

lemma restart_stop_rejected:
  "client w = Some c \<Longrightarrow> fst (lc_stop lib c) = Inl e \<Longrightarrow>
     restartLsp lib w =
       (Inl e, (append_events [ClientStop] w)
                 \<lparr>client := Some (c\<lparr>state := snd (lc_stop lib c)\<rparr>)\<rparr>)"
  by (simp add: restartLsp_def client_stop_some)

lemma restart_start_rejected:
  "client w = Some c \<Longrightarrow> lc_stop lib c = (Inr (), s) \<Longrightarrow>
   fst (lc_start lib (c\<lparr>state := s\<rparr>)) = Inl e \<Longrightarrow>
     restartLsp lib w =
       (Inl e, (append_events [ClientStop, ClientStart] w)
                 \<lparr>client := Some (c\<lparr>state := snd (lc_start lib (c\<lparr>state := s\<rparr>))\<rparr>)\<rparr>)"
  by (simp add: restartLsp_def client_stop_some client_start_some append_events_def)

text \<open>
  Claim C6 as stated fails. A restart of a running client whose \<^verbatim>\<open>stop\<close> rejects,
  with a library whose \<^verbatim>\<open>start\<close> would succeed, performs the stop and nothing after it:
  \<open>restartLsp\<close> rejects, no start is called and no confirmation is shown.
\<close>

theorem restart_after_rejected_stop_counterexample:
  "client world_started = Some client0
   \<and> state client0 = Running
   \<and> lc_start lib_stop_times_out (client0\<lparr>state := Stopped\<rparr>) = (Inr (), Running)
   \<and> restartLsp lib_stop_times_out world_started =
       (Inl (JsError ''Stopping the server timed out''),
        (append_events [ClientStop] world_started)
          \<lparr>client := Some (client0\<lparr>state := Stopped\<rparr>)\<rparr>)
   \<and> events (snd (restartLsp lib_stop_times_out world_started)) =
       events world_started @ [ClientStop]"
proof -
  have c: "client world_started = Some client0"
    by (simp add: world_started_def)
  have s: "state client0 = Running"
    by (simp add: client0_def)
  have l: "lc_start lib_stop_times_out (client0\<lparr>state := Stopped\<rparr>) = (Inr (), Running)"
    and f: "fst (lc_stop lib_stop_times_out client0) =
        Inl (JsError ''Stopping the server timed out'')"
    and t: "snd (lc_stop lib_stop_times_out client0) = Stopped"
    by (simp_all add: lib_stop_times_out_def)
  from restart_stop_rejected [OF c f]
  have r: "restartLsp lib_stop_times_out world_started =
       (Inl (JsError ''Stopping the server timed out''),
        (append_events [ClientStop] world_started)
          \<lparr>client := Some (client0\<lparr>state := Stopped\<rparr>)\<rparr>)"
    by (simp add: t)
  then have "events (snd (restartLsp lib_stop_times_out world_started)) =
       events world_started @ [ClientStop]"
    by simp
  with c s l r show ?thesis by blast
qed

text \<open>
  Claim C6, amended. A restart with a handle calls \<^verbatim>\<open>stop\<close> once. When the stop
  resolves and \<^verbatim>\<open>start\<close> then resolves with the client running (the peer launches),
  the restart logs exactly one stop, then one start, then one confirmation, and nothing
  else: no path is resolved again. The handle is the same client object with the same
  server options, so the same binary path, now in state \<open>Running\<close>. When the stop
  rejects, the restart rejects with it after the one stop: no start and no confirmation.
  The theorem asks nothing of the state the client is in before, so it holds of a running
  client in particular. The lemma \<open>restart_start_rejected\<close> adds that a rejected start
  ends the restart before the confirmation.
\<close>

theorem restart_stops_then_starts_same_client:
  "(client w = Some c
    \<and> lc_stop lib c = (Inr (), s)
    \<and> lc_start lib (c\<lparr>state := s\<rparr>) = (Inr (), Running)
    \<longrightarrow> restartLsp lib w =
          (Inr (),
           (append_events
              [ClientStop, ClientStart,
               ShowInformationMessage ''OxideKit language server restarted''] w)
             \<lparr>client := Some (c\<lparr>state := Running\<rparr>)\<rparr>)
        \<and> map_option serverOptions (client (snd (restartLsp lib w))) = Some (serverOptions c)
        \<and> map_option state (client (snd (restartLsp lib w))) = Some Running)
   \<and> (client w = Some c \<and> fst (lc_stop lib c) = Inl e
    \<longrightarrow> restartLsp lib w =
          (Inl e, (append_events [ClientStop] w)
                    \<lparr>client := Some (c\<lparr>state := snd (lc_stop lib c)\<rparr>)\<rparr>))"
proof (intro conjI impI)
  assume h: "client w = Some c
    \<and> lc_stop lib c = (Inr (), s)
    \<and> lc_start lib (c\<lparr>state := s\<rparr>) = (Inr (), Running)"
  then show "restartLsp lib w =
          (Inr (),
           (append_events
              [ClientStop, ClientStart,
               ShowInformationMessage ''OxideKit language server restarted''] w)
             \<lparr>client := Some (c\<lparr>state := Running\<rparr>)\<rparr>)"
    by (simp add: restartLsp_def client_stop_some client_start_some append_events_def emit_def)
  from h show "map_option serverOptions (client (snd (restartLsp lib w))) =
      Some (serverOptions c)"
    by (simp add: restartLsp_def client_stop_some client_start_some append_events_def emit_def)
  from h show "map_option state (client (snd (restartLsp lib w))) = Some Running"
    by (simp add: restartLsp_def client_stop_some client_start_some append_events_def emit_def)
next
  assume "client w = Some c \<and> fst (lc_stop lib c) = Inl e"
  then show "restartLsp lib w =
          (Inl e, (append_events [ClientStop] w)
                    \<lparr>client := Some (c\<lparr>state := snd (lc_stop lib c)\<rparr>)\<rparr>)"
    by (simp add: restart_stop_rejected)
qed

theorem restart_stops_then_starts_same_client_witness:
  "client world_started = Some client0
   \<and> state client0 = Running
   \<and> lc_stop lib_ok client0 = (Inr (), Stopped)
   \<and> lc_start lib_ok (client0\<lparr>state := Stopped\<rparr>) = (Inr (), Running)
   \<and> restartLsp lib_ok world_started =
       (Inr (),
        (append_events
           [ClientStop, ClientStart,
            ShowInformationMessage ''OxideKit language server restarted''] world_started)
          \<lparr>client := Some (client0\<lparr>state := Running\<rparr>)\<rparr>)
   \<and> map_option (\<lambda>c. command (run (serverOptions c)))
         (client (snd (restartLsp lib_ok world_started))) = Some ''/no/such/oxide-lsp''"
proof -
  have h: "client world_started = Some client0
      \<and> lc_stop lib_ok client0 = (Inr (), Stopped)
      \<and> lc_start lib_ok (client0\<lparr>state := Stopped\<rparr>) = (Inr (), Running)"
    by (simp add: started_client lib_ok_def)
  have s: "state client0 = Running"
    by (simp add: client0_def)
  have p: "command (run (serverOptions client0)) = ''/no/such/oxide-lsp''"
    by (simp add: client0_def make_serverOptions_def)
  from restart_stops_then_starts_same_client [of world_started client0 lib_ok Stopped] h
  have "restartLsp lib_ok world_started =
       (Inr (),
        (append_events
           [ClientStop, ClientStart,
            ShowInformationMessage ''OxideKit language server restarted''] world_started)
          \<lparr>client := Some (client0\<lparr>state := Running\<rparr>)\<rparr>)"
    by blast
  with h s p show ?thesis by simp
qed

lemma deactivate_absent:
  "client w = None \<Longrightarrow>
     deactivate lib w = (Inr (), append_events (deactivate_prologue w) w)"
  by (simp add: deactivate_def deactivate_prologue_def Let_def emit_def append_events_def
        split: option.splits)

lemma deactivate_present:
  "client w = Some c \<Longrightarrow>
     deactivate lib w =
       (fst (lc_stop lib c),
        (append_events (deactivate_prologue w @ [ClientStop]) w)
          \<lparr>client := Some (c\<lparr>state := snd (lc_stop lib c)\<rparr>)\<rparr>)"
  by (simp add: deactivate_def deactivate_prologue_def Let_def client_stop_def emit_def
        append_events_def split: option.splits)

lemma prologue_after_deactivate:
  "deactivate_prologue (snd (deactivate lib w)) = deactivate_prologue w"
  by (cases "client w")
     (simp_all add: deactivate_absent deactivate_present deactivate_prologue_def)

lemma world_start_failed_reached:
  "startLspClient env_configured lib_launch_fails world0 = (Inr (), world_start_failed)"
  by (simp add: startLspClient_def startLspClient_resolve_def startLspClient_launch_def
        client_start_def emit_def world0_def world_start_failed_def world_started_def
        client0_def lib_launch_fails_def env_configured_def falsy_def)

lemma start_failed_client:
  "client world_start_failed = Some (client0\<lparr>state := StartFailed\<rparr>)"
  by (simp add: world_start_failed_def)

text \<open>
  Claim C5 as stated fails. The configured binary cannot be launched: \<open>startLspClient\<close>
  creates the client, its start fails, and the variable \<^verbatim>\<open>client\<close> stays set to the
  client that never ran, a handle with no connection behind it. \<open>deactivate\<close> still
  calls \<^verbatim>\<open>client.stop()\<close> on it, and the library rejects a stop of a client that is
  not running: the call is an error, not a no-op, and a second call in succession is the
  same error again.
\<close>

theorem stop_twice_counterexample:
  "startLspClient env_configured lib_launch_fails world0 = (Inr (), world_start_failed)
   \<and> fst (deactivate lib_launch_fails world_start_failed) =
       Inl (JsError ''Client is not running'')
   \<and> client (snd (deactivate lib_launch_fails world_start_failed)) =
       Some (client0\<lparr>state := StartFailed\<rparr>)
   \<and> fst (deactivate lib_launch_fails (snd (deactivate lib_launch_fails world_start_failed))) =
       Inl (JsError ''Client is not running'')"
proof -
  let ?c = "client0\<lparr>state := StartFailed\<rparr>"
  let ?w1 = "snd (deactivate lib_launch_fails world_start_failed)"
  have st: "lc_stop lib_launch_fails ?c = (Inl (JsError ''Client is not running''), StartFailed)"
    by (simp add: lib_launch_fails_def)
  have r1: "fst (deactivate lib_launch_fails world_start_failed) =
      Inl (JsError ''Client is not running'')"
    by (simp add: deactivate_present [OF start_failed_client] st)
  have c1: "client ?w1 = Some ?c"
    by (simp add: deactivate_present [OF start_failed_client] st)
  have r2: "fst (deactivate lib_launch_fails ?w1) = Inl (JsError ''Client is not running'')"
    by (simp add: deactivate_present [OF c1] st)
  from world_start_failed_reached r1 c1 r2 show ?thesis by blast
qed

text \<open>
  Claim C5, amended. Without a handle \<open>deactivate\<close> returns normally and makes no call
  on a client: it only writes its console line and disposes the terminal of the dev
  server if there is one. With a handle, every \<open>deactivate\<close> calls \<^verbatim>\<open>client.stop()\<close> on
  it, returns what that call returns, and leaves the handle set. A second call in
  succession is a no-op when the library's \<^verbatim>\<open>stop\<close> is one on the client the first
  call left: when that \<^verbatim>\<open>stop\<close> resolves and leaves the client as it is, the second
  \<open>deactivate\<close> returns normally and changes nothing but the log of its own two calls.
\<close>

theorem deactivate_stops_whenever_handle_exists:
  "(client w = None \<longrightarrow>
      deactivate lib w = (Inr (), append_events (deactivate_prologue w) w))
   \<and> (client w = Some c \<longrightarrow>
      deactivate lib w =
        (fst (lc_stop lib c),
         (append_events (deactivate_prologue w @ [ClientStop]) w)
           \<lparr>client := Some (c\<lparr>state := snd (lc_stop lib c)\<rparr>)\<rparr>))
   \<and> (client w = Some c
        \<and> lc_stop lib (c\<lparr>state := snd (lc_stop lib c)\<rparr>) = (Inr (), snd (lc_stop lib c))
      \<longrightarrow> deactivate lib (snd (deactivate lib w)) =
            (Inr (), append_events (deactivate_prologue w @ [ClientStop])
                       (snd (deactivate lib w))))"
proof (intro conjI impI)
  assume "client w = None"
  then show "deactivate lib w = (Inr (), append_events (deactivate_prologue w) w)"
    by (rule deactivate_absent)
next
  assume "client w = Some c"
  then show "deactivate lib w =
        (fst (lc_stop lib c),
         (append_events (deactivate_prologue w @ [ClientStop]) w)
           \<lparr>client := Some (c\<lparr>state := snd (lc_stop lib c)\<rparr>)\<rparr>)"
    by (rule deactivate_present)
next
  let ?c1 = "c\<lparr>state := snd (lc_stop lib c)\<rparr>"
  let ?w1 = "snd (deactivate lib w)"
  assume h: "client w = Some c \<and> lc_stop lib ?c1 = (Inr (), snd (lc_stop lib c))"
  then have c1: "client ?w1 = Some ?c1"
    by (simp add: deactivate_present)
  have p: "deactivate_prologue ?w1 = deactivate_prologue w"
    by (rule prologue_after_deactivate)
  from h show "deactivate lib ?w1 =
      (Inr (), append_events (deactivate_prologue w @ [ClientStop]) ?w1)"
    by (simp add: deactivate_present [OF c1] p append_events_def c1)
qed

theorem deactivate_stops_whenever_handle_exists_witness:
  "client world0 = None
   \<and> deactivate lib_ok world0 =
       (Inr (), append_events [ConsoleLog ''OxideKit extension deactivating...''] world0)
   \<and> client world_started = Some client0
   \<and> deactivate lib_ok world_started =
       (Inr (),
        (append_events [ConsoleLog ''OxideKit extension deactivating...'', ClientStop]
           world_started)\<lparr>client := Some (client0\<lparr>state := Stopped\<rparr>)\<rparr>)
   \<and> lc_stop lib_ok (client0\<lparr>state := snd (lc_stop lib_ok client0)\<rparr>) =
       (Inr (), snd (lc_stop lib_ok client0))
   \<and> deactivate lib_ok (snd (deactivate lib_ok world_started)) =
       (Inr (),
        append_events [ConsoleLog ''OxideKit extension deactivating...'', ClientStop]
          (snd (deactivate lib_ok world_started)))"
proof -
  have a: "client world0 = None" and t0: "devServerTerminal world0 = None"
    by (simp_all add: world0_def)
  have t1: "devServerTerminal world_started = None"
    by (simp add: world_started_def)
  have i: "lc_stop lib_ok (client0\<lparr>state := snd (lc_stop lib_ok client0)\<rparr>) =
       (Inr (), snd (lc_stop lib_ok client0))"
    by (simp add: lib_ok_def)
  have p: "deactivate_prologue world_started =
      [ConsoleLog ''OxideKit extension deactivating...'']"
    by (simp add: deactivate_prologue_def t1)
  from deactivate_stops_whenever_handle_exists [of world0 lib_ok client0] a t0
  have d0: "deactivate lib_ok world0 =
       (Inr (), append_events [ConsoleLog ''OxideKit extension deactivating...''] world0)"
    by (simp add: deactivate_prologue_def)
  note t = deactivate_stops_whenever_handle_exists [of world_started lib_ok client0]
  from t started_client
  have d1: "deactivate lib_ok world_started =
       (Inr (),
        (append_events [ConsoleLog ''OxideKit extension deactivating...'', ClientStop]
           world_started)\<lparr>client := Some (client0\<lparr>state := Stopped\<rparr>)\<rparr>)"
    by (simp add: p lib_ok_def)
  from t started_client i
  have "deactivate lib_ok (snd (deactivate lib_ok world_started)) =
       (Inr (),
        append_events (deactivate_prologue world_started @ [ClientStop])
          (snd (deactivate lib_ok world_started)))"
    by blast
  then have d2: "deactivate lib_ok (snd (deactivate lib_ok world_started)) =
       (Inr (),
        append_events [ConsoleLog ''OxideKit extension deactivating...'', ClientStop]
          (snd (deactivate lib_ok world_started)))"
    by (simp add: p)
  from a d0 started_client d1 i d2 show ?thesis by blast
qed

subsection \<open>The handle is never reset\<close>











subsection \<open>The lookup on the system path\<close>

lemma where_first_line:
  "js_index0 (js_split (CHR 0x0A) (js_trim where_output)) =
     Some (where_first_match @ [CHR 0x0D])"
  by (simp add: where_output_def where_first_match_def where_second_match_def backslash_def
        js_trim_def js_whitespace_def js_index0_def)

lemma where_first_line_trimmed:
  "map_option js_trim (js_index0 (js_split (CHR 0x0A) where_output)) = Some where_first_match"
  by (simp add: where_output_def where_first_match_def where_second_match_def backslash_def
        js_trim_def js_whitespace_def js_index0_def)

text \<open>
  Claim C8 at a concrete input. On Windows, with the path setting left empty, no folder
  open and no bundled binary, \<^verbatim>\<open>where oxide-lsp\<close> finds two binaries and prints one per
  line, each line ending in carriage return and line feed. The code trims the whole
  output and then takes the text before the first line feed, so the path it returns ends
  in a carriage return; the first line of the output, trimmed, does not.
\<close>

theorem path_lookup_keeps_carriage_return:
  "whichCommand env_win = ''where''
   \<and> execSync env_win (whichCommand env_win @ '' oxide-lsp'') = Inr where_output
   \<and> fst (startLspClient_resolve env_win world0) = Inr (Some (where_first_match @ [CHR 0x0D]))
   \<and> map_option js_trim (js_index0 (js_split (CHR 0x0A) where_output)) =
       Some where_first_match
   \<and> where_first_match @ [CHR 0x0D] \<noteq> where_first_match"
proof -
  have w: "whichCommand env_win = ''where''"
    by (simp add: whichCommand_def env_win_def)
  have x: "execSync env_win ''where oxide-lsp'' = Inr where_output"
    by (simp add: env_win_def)
  have f: "falsy (config_lsp_path env_win)" and nf: "workspaceFolders env_win = None"
    and st: "\<And>p. fs_stat env_win p = Inl (JsError ''FileNotFound'')"
    by (simp_all add: env_win_def falsy_def)
  have "fst (findOxideLsp env_win world0) = Inr (Some (where_first_match @ [CHR 0x0D]))"
    by (simp add: findOxideLsp_def nf st vscode_fs_stat_def child_process_execSync_def w x
          where_first_line)
  with f have r: "fst (startLspClient_resolve env_win world0) =
      Inr (Some (where_first_match @ [CHR 0x0D]))"
    by (simp add: startLspClient_resolve_def)
  from w x r where_first_line_trimmed show ?thesis by simp
qed

text \<open>
  Where the lookup agrees with the claim: an output whose trimmed form is a single line
  gives that line, an output that trims to nothing gives the empty string, which
  \<open>startLspClient\<close> treats as absent, and a lookup that throws gives \<^verbatim>\<open>undefined\<close>.
\<close>

lemma js_split_no_separator: "c \<notin> set s \<Longrightarrow> js_split c s = [s]"
  by (induction s) auto

lemma lookup_value_single_line:
  "execSync env c = Inr out \<Longrightarrow> CHR 0x0A \<notin> set (js_trim out) \<Longrightarrow>
     probe_value env (ExecSync c) = Some (js_trim out)"
  by (simp add: js_split_no_separator js_index0_def)

lemma lookup_value_empty_is_falsy:
  "execSync env c = Inr out \<Longrightarrow> js_trim out = [] \<Longrightarrow>
     falsy (probe_value env (ExecSync c))"
  by (simp add: js_index0_def falsy_def)

lemma lookup_value_failure:
  "execSync env c = Inl e \<Longrightarrow> probe_value env (ExecSync c) = None"
  by simp

end
